theory Spec2Isabelle
  imports Complex_Main "HOL-Library.Sublist"
begin

section \<open>FRUITPy: a shallow embedding of \<^verbatim>\<open>FRUIT.py\<close>\<close>

text \<open>
  The program is Python 2 (\<^verbatim>\<open>print\<close> statements, \<^verbatim>\<open>xrange\<close>), so a \<^verbatim>\<open>str\<close> is a
  byte string: it is modelled by \<^typ>\<open>string\<close>. A source file is the string of its
  contents; an open file object is the part of the contents that has not been read yet.
  Exceptions are values of type \<open>error\<close>; a function that may raise returns
  \<open>error + 'a\<close>. The three \<^verbatim>\<open>while\<close> loops over \<^verbatim>\<open>f.readline()\<close> are defined with
  \<^theory_text>\<open>partial_function (option)\<close>: \<open>None\<close> means that the loop never returns.
\<close>

subsection \<open>Python primitives\<close>

datatype error =
  IndexError | ValueError | IOError | TypeError | AttributeError | ZeroDivisionError
  | OverflowError

text \<open>\<^verbatim>\<open>str.lower()\<close> on a byte string (C locale): the 26 ASCII capitals change.\<close>

definition lower_char :: "char \<Rightarrow> char" where
  "lower_char c =
     (case map_of (zip ''ABCDEFGHIJKLMNOPQRSTUVWXYZ'' ''abcdefghijklmnopqrstuvwxyz'') c of
        None \<Rightarrow> c
      | Some d \<Rightarrow> d)"

definition lower :: "string \<Rightarrow> string" where
  "lower s = map lower_char s"

text \<open>The characters \<^verbatim>\<open>str.strip()\<close> and \<^verbatim>\<open>str.split()\<close> treat as whitespace:
  space, \<^verbatim>\<open>\t \n \v \f \r\<close>.\<close>

definition isspace :: "char \<Rightarrow> bool" where
  "isspace c = (c \<in> set [CHR '' '', CHR 0x09, CHR 0x0A, CHR 0x0B, CHR 0x0C, CHR 0x0D])"

definition strip :: "string \<Rightarrow> string" where
  "strip s = rev (dropWhile isspace (rev (dropWhile isspace s)))"

text \<open>\<^verbatim>\<open>s.split()\<close>: the maximal runs of non-whitespace characters, in order.
  \<open>cur\<close> is the token being read.\<close>

fun split_from :: "string \<Rightarrow> string \<Rightarrow> string list" where
  "split_from cur [] = (if cur = [] then [] else [cur])"
| "split_from cur (c # cs) =
     (if isspace c then (if cur = [] then split_from [] cs else cur # split_from [] cs)
      else split_from (cur @ [c]) cs)"

definition split_ws :: "string \<Rightarrow> string list" where
  "split_ws s = split_from [] s"

text \<open>\<^verbatim>\<open>s.find(sub)\<close>: the least index at which \<open>sub\<close> starts, or \<open>-1\<close>.\<close>

fun find_from :: "nat \<Rightarrow> string \<Rightarrow> string \<Rightarrow> int" where
  "find_from i sub [] = (if sub = [] then int i else - 1)"
| "find_from i sub (c # cs) =
     (if prefix sub (c # cs) then int i else find_from (Suc i) sub cs)"

definition str_find :: "string \<Rightarrow> string \<Rightarrow> int" where
  "str_find s sub = find_from 0 sub s"

text \<open>Slices \<^verbatim>\<open>s[i:]\<close> and \<^verbatim>\<open>s[:i]\<close>; a negative index counts from the end.\<close>

definition slice_from :: "'a list \<Rightarrow> int \<Rightarrow> 'a list" where
  "slice_from s i = (if i < 0 then drop (nat (int (length s) + i)) s else drop (nat i) s)"

definition slice_to :: "'a list \<Rightarrow> int \<Rightarrow> 'a list" where
  "slice_to s i = (if i < 0 then take (nat (int (length s) + i)) s else take (nat i) s)"

text \<open>Indexing \<^verbatim>\<open>xs[i]\<close>: a negative index counts from the end, an index out of
  range raises \<^verbatim>\<open>IndexError\<close>.\<close>

definition item :: "'a list \<Rightarrow> int \<Rightarrow> error + 'a" where
  "item xs i =
     (let j = (if i < 0 then int (length xs) + i else i)
      in if j < 0 \<or> int (length xs) \<le> j then Inl IndexError else Inr (xs ! nat j))"

text \<open>\<^verbatim>\<open>xs.index(x)\<close>: the first position of \<open>x\<close>, \<^verbatim>\<open>ValueError\<close> when there is none.\<close>

fun index_of :: "'a \<Rightarrow> 'a list \<Rightarrow> error + nat" where
  "index_of x [] = Inl ValueError"
| "index_of x (y # ys) =
     (if x = y then Inr 0 else (case index_of x ys of Inl e \<Rightarrow> Inl e | Inr k \<Rightarrow> Inr (Suc k)))"

text \<open>\<^verbatim>\<open>int(tok)\<close> on a token without whitespace: an optional sign and one or more
  decimal digits, \<^verbatim>\<open>ValueError\<close> otherwise.\<close>

definition digit_of :: "char \<Rightarrow> int option" where
  "digit_of c = map_of (zip ''0123456789'' [0, 1, 2, 3, 4, 5, 6, 7, 8, 9]) c"

fun digits_value :: "int \<Rightarrow> string \<Rightarrow> int option" where
  "digits_value acc [] = Some acc"
| "digits_value acc (c # cs) =
     (case digit_of c of None \<Rightarrow> None | Some d \<Rightarrow> digits_value (10 * acc + d) cs)"

definition unsigned_int :: "string \<Rightarrow> error + int" where
  "unsigned_int s =
     (if s = [] then Inl ValueError
      else (case digits_value 0 s of None \<Rightarrow> Inl ValueError | Some v \<Rightarrow> Inr v))"

definition py_int :: "string \<Rightarrow> error + int" where
  "py_int s =
     (case s of
        [] \<Rightarrow> Inl ValueError
      | c # cs \<Rightarrow>
          if c = CHR ''-'' then (case unsigned_int cs of Inl e \<Rightarrow> Inl e | Inr v \<Rightarrow> Inr (- v))
          else if c = CHR ''+'' then unsigned_int cs
          else unsigned_int s)"

text \<open>\<^verbatim>\<open>f.readline()\<close>: the text up to and including the next newline, and the rest of
  the file; the empty string at the end of the file.\<close>

definition readline :: "string \<Rightarrow> string \<times> string" where
  "readline f =
     (case dropWhile (\<lambda>c. c \<noteq> CHR 0x0A) f of
        [] \<Rightarrow> (f, [])
      | nl # rest \<Rightarrow> (takeWhile (\<lambda>c. c \<noteq> CHR 0x0A) f @ [nl], rest))"

text \<open>\<^verbatim>\<open>f.readlines()\<close>: all the lines that are left. \<open>cur\<close> is the line being read.\<close>

fun lines_from :: "string \<Rightarrow> string \<Rightarrow> string list" where
  "lines_from cur [] = (if cur = [] then [] else [cur])"
| "lines_from cur (c # cs) =
     (if c = CHR 0x0A then (cur @ [c]) # lines_from [] cs else lines_from (cur @ [c]) cs)"

definition readlines :: "string \<Rightarrow> string list" where
  "readlines f = lines_from [] f"

text \<open>\<^verbatim>\<open>sep.join(xs)\<close>.\<close>

fun join :: "string \<Rightarrow> string list \<Rightarrow> string" where
  "join sep [] = []"
| "join sep [x] = x"
| "join sep (x # y # ys) = x @ sep @ join sep (y # ys)"

subsection \<open>Data\<close>

record test_subroutine =
  name :: string
  description :: string

text \<open>The attributes \<^verbatim>\<open>setup\<close> and \<^verbatim>\<open>teardown\<close> of a module are the fields
  \<open>has_setup\<close> and \<open>has_teardown\<close>.\<close>

record test_module =
  test_filename :: string
  test_module_name :: string
  has_setup :: bool
  has_teardown :: bool
  subroutines :: "test_subroutine list"

record test_result =
  success :: int
  total :: int

text \<open>The attributes \<^verbatim>\<open>outputfile\<close>, \<^verbatim>\<open>output_lines\<close>, \<^verbatim>\<open>success\<close> and
  \<^verbatim>\<open>messages\<close> of a suite do not exist before \<^verbatim>\<open>run\<close> creates them: \<open>None\<close>.
  The attribute \<^verbatim>\<open>success\<close> of the suite is the field \<open>all_passed\<close>, since
  \<open>success\<close> is a field of \<open>test_result\<close>.\<close>

record test_suite =
  test_filenames :: "string list"
  test_modules :: "test_module list"
  driver :: "string option"
  exe :: "string option"
  asserts :: test_result
  cases :: test_result
  outputfile :: "string option"
  output_lines :: "string list option"
  all_passed :: "bool option"
  messages :: "string list option"

subsection \<open>class \<^verbatim>\<open>test_module\<close>: the source scanner\<close>

text \<open>\<^verbatim>\<open>while 'module' not in line.lower(): line = f.readline()\<close>. The state of the
  loop is the current line and the file.\<close>

partial_function (option) module_line :: "string \<Rightarrow> string \<Rightarrow> (string \<times> string) option" where
  "module_line line f =
     (if \<not> sublist ''module'' (lower line)
      then (case readline f of (line', f') \<Rightarrow> module_line line' f')
      else Some (line, f))"

text \<open>\<^verbatim>\<open>parse_test_module_name\<close> returns the module name and the file.\<close>

definition parse_test_module_name :: "string \<Rightarrow> (error + string \<times> string) option" where
  "parse_test_module_name f =
     (case readline f of (line0, f0) \<Rightarrow>
        (case module_line line0 f0 of
           None \<Rightarrow> None
         | Some (line, f1) \<Rightarrow>
             (let imod = str_find line ''module''
              in case item (split_ws (strip (slice_from line imod))) 1 of
                   Inl e \<Rightarrow> Some (Inl e)
                 | Inr nm \<Rightarrow> Some (Inr (nm, f1)))))"

datatype subtype = Setup | Teardown | Test

definition subroutine_type :: "string \<Rightarrow> subtype option" where
  "subroutine_type nm =
     (let lowername = lower nm
      in if lowername = ''setup'' then Some Setup
         else if lowername = ''teardown'' then Some Teardown
         else if prefix ''test_'' lowername then Some Test
         else None)"

text \<open>\<^verbatim>\<open>while not line.strip(): line = f.readline()\<close>.\<close>

partial_function (option) nonblank_line :: "string \<Rightarrow> string \<Rightarrow> (string \<times> string) option" where
  "nonblank_line line f =
     (if strip line = []
      then (case readline f of (line', f') \<Rightarrow> nonblank_line line' f')
      else Some (line, f))"

text \<open>Lines 71 to 73 of \<^verbatim>\<open>parse_subroutine\<close>: the text before the keyword, and the
  test that accepts the line as a declaration.\<close>

definition sub_pre :: "string \<Rightarrow> string" where
  "sub_pre line = (let isub = str_find (lower line) ''subroutine'' in slice_to line isub)"

definition sub_accepted :: "string \<Rightarrow> bool" where
  "sub_accepted line =
     (let pre = sub_pre line in CHR ''!'' \<notin> set pre \<and> \<not> sublist ''end'' (lower pre))"

text \<open>Lines 74 to 76: the name of the subroutine.\<close>

definition sub_name :: "string \<Rightarrow> error + string" where
  "sub_name line =
     (let isub = str_find (lower line) ''subroutine''
      in case item (split_ws (strip (slice_from line isub))) 1 of
           Inl e \<Rightarrow> Inl e
         | Inr subname \<Rightarrow>
             (let bracpos = str_find subname ''(''
              in if bracpos \<ge> 0 then Inr (slice_to subname bracpos) else Inr subname))"

text \<open>\<^verbatim>\<open>parse_subroutine(f, line)\<close> on a module under construction \<open>m\<close>; it returns the
  file and the module.\<close>

definition parse_subroutine ::
  "string \<Rightarrow> string \<Rightarrow> test_module \<Rightarrow> (error + string \<times> test_module) option" where
  "parse_subroutine f line m =
     (if sub_accepted line then
        (case sub_name line of
           Inl e \<Rightarrow> Some (Inl e)
         | Inr subname \<Rightarrow>
             (let subtype = subroutine_type subname
              in if subtype = Some Test then
                   (case readline f of (line1, f1) \<Rightarrow>
                      (case nonblank_line line1 f1 of
                         None \<Rightarrow> None
                       | Some (line2, f2) \<Rightarrow>
                           (let comment_pos = str_find line2 ''!'';
                                descr = (if comment_pos \<ge> 0
                                         then strip (slice_from line2 (comment_pos + 1))
                                         else subname);
                                sub = \<lparr>name = subname, description = descr\<rparr>
                            in Some (Inr (f2, m\<lparr>subroutines := subroutines m @ [sub]\<rparr>)))))
                 else if subtype = Some Setup then Some (Inr (f, m\<lparr>has_setup := True\<rparr>))
                 else if subtype = Some Teardown then Some (Inr (f, m\<lparr>has_teardown := True\<rparr>))
                 else Some (Inr (f, m))))
      else Some (Inr (f, m)))"

text \<open>The loop of \<^verbatim>\<open>parse_subroutines\<close>: \<^verbatim>\<open>while line: ...; line = f.readline()\<close>.\<close>

partial_function (option) subroutines_loop ::
  "string \<Rightarrow> string \<Rightarrow> test_module \<Rightarrow> (error + string \<times> test_module) option" where
  "subroutines_loop line f m =
     (if line \<noteq> [] then
        (if sublist ''subroutine'' (lower line) then
           (case parse_subroutine f line m of
              None \<Rightarrow> None
            | Some (Inl e) \<Rightarrow> Some (Inl e)
            | Some (Inr (f1, m1)) \<Rightarrow>
                (case readline f1 of (line', f') \<Rightarrow> subroutines_loop line' f' m1))
         else (case readline f of (line', f') \<Rightarrow> subroutines_loop line' f' m))
      else Some (Inr (f, m)))"

definition parse_subroutines ::
  "string \<Rightarrow> test_module \<Rightarrow> (error + string \<times> test_module) option" where
  "parse_subroutines f m =
     (case readline f of (line, f') \<Rightarrow>
        subroutines_loop line f' (m\<lparr>has_setup := False, has_teardown := False, subroutines := []\<rparr>))"

text \<open>\<^verbatim>\<open>test_module(test_filename)\<close>: the constructor opens the file and parses it.
  \<open>fs\<close> is the file system, a map from paths to contents; a missing file raises
  \<^verbatim>\<open>IOError\<close>. The fields that \<^verbatim>\<open>parse\<close> has not set yet are given the values they
  are first assigned.\<close>

definition new_test_module ::
  "(string \<rightharpoonup> string) \<Rightarrow> string \<Rightarrow> (error + test_module) option" where
  "new_test_module fs fname =
     (case fs fname of
        None \<Rightarrow> Some (Inl IOError)
      | Some f \<Rightarrow>
          (case parse_test_module_name f of
             None \<Rightarrow> None
           | Some (Inl e) \<Rightarrow> Some (Inl e)
           | Some (Inr (nm, f1)) \<Rightarrow>
               (case parse_subroutines f1
                       \<lparr>test_filename = fname, test_module_name = nm, has_setup = False,
                        has_teardown = False, subroutines = []\<rparr> of
                  None \<Rightarrow> None
                | Some (Inl e) \<Rightarrow> Some (Inl e)
                | Some (Inr (f2, m)) \<Rightarrow> Some (Inr m))))"

subsection \<open>class \<^verbatim>\<open>test_result\<close> and the construction of a \<^verbatim>\<open>test_suite\<close>\<close>

definition new_test_result :: test_result where
  "new_test_result = \<lparr>success = 0, total = 0\<rparr>"

text \<open>
  \<^verbatim>\<open>get_percent\<close> computes with Python floats (IEEE doubles). The arithmetic of doubles is
  a parameter: the type \<open>'f\<close> of the doubles, the rounding \<open>to_float\<close> of an integer
  that is in range, the test \<open>is_zero\<close> (\<^verbatim>\<open>x == 0.0\<close>), the quotient and the product of two
  doubles, and the literals \<^verbatim>\<open>100.\<close> and \<^verbatim>\<open>0.0\<close>.
\<close>

record 'f float_ops =
  to_float :: "int \<Rightarrow> 'f"
  is_zero :: "'f \<Rightarrow> bool"
  fdiv :: "'f \<Rightarrow> 'f \<Rightarrow> 'f"
  fmul :: "'f \<Rightarrow> 'f \<Rightarrow> 'f"
  float_100 :: "'f"
  float_0 :: "'f"

text \<open>\<^verbatim>\<open>float(n)\<close> rounds to the nearest double, ties to even, and raises
  \<^verbatim>\<open>OverflowError\<close> when the result is not finite: the largest double is
  \<open>2 ^ 1024 - 2 ^ 971\<close>, and an integer rounds beyond it from \<open>2 ^ 1024 - 2 ^ 970\<close> on.\<close>

definition in_double_range :: "int \<Rightarrow> bool" where
  "in_double_range n = (\<bar>n\<bar> < 2 ^ 1024 - 2 ^ 970)"

definition py_float :: "'f float_ops \<Rightarrow> int \<Rightarrow> error + 'f" where
  "py_float ops n = (if in_double_range n then Inr (to_float ops n) else Inl OverflowError)"

text \<open>\<^verbatim>\<open>a / b\<close> on floats raises \<^verbatim>\<open>ZeroDivisionError\<close> when \<^verbatim>\<open>b == 0.0\<close>.\<close>

definition float_div :: "'f float_ops \<Rightarrow> 'f \<Rightarrow> 'f \<Rightarrow> error + 'f" where
  "float_div ops a b = (if is_zero ops b then Inl ZeroDivisionError else Inr (fdiv ops a b))"

text \<open>The \<^verbatim>\<open>try\<close> block of \<^verbatim>\<open>get_percent\<close>: \<^verbatim>\<open>float(self.success)\<close> is evaluated first,
  then \<^verbatim>\<open>float(self.total)\<close>, then the quotient, then the product.\<close>

definition percent_try :: "'f float_ops \<Rightarrow> test_result \<Rightarrow> error + 'f" where
  "percent_try ops r =
     (case py_float ops (success r) of
        Inl e \<Rightarrow> Inl e
      | Inr a \<Rightarrow>
          (case py_float ops (total r) of
             Inl e \<Rightarrow> Inl e
           | Inr b \<Rightarrow>
               (case float_div ops a b of
                  Inl e \<Rightarrow> Inl e
                | Inr q \<Rightarrow> Inr (fmul ops q (float_100 ops)))))"

text \<open>\<^verbatim>\<open>except ZeroDivisionError: return 0.0\<close>; any other exception goes on to the caller.\<close>

definition get_percent :: "'f float_ops \<Rightarrow> test_result \<Rightarrow> error + 'f" where
  "get_percent ops r =
     (case percent_try ops r of
        Inl e \<Rightarrow> if e = ZeroDivisionError then Inr (float_0 ops) else Inl e
      | Inr p \<Rightarrow> Inr p)"

text \<open>The argument of the constructor of \<^verbatim>\<open>test_suite\<close>: a \<^verbatim>\<open>str\<close> or a list of
  \<^verbatim>\<open>str\<close>.\<close>

datatype filenames = Str string | StrList "string list"

text \<open>\<^verbatim>\<open>test_suite.parse\<close>: one module for each file name, appended to
  \<^verbatim>\<open>self.test_modules\<close>; the first constructor that raises, or does not return, ends it.\<close>

fun parse_files ::
  "(string \<rightharpoonup> string) \<Rightarrow> string list \<Rightarrow> test_module list \<Rightarrow> (error + test_module list) option" where
  "parse_files fs [] mods = Some (Inr mods)"
| "parse_files fs (fname # fnames) mods =
     (case new_test_module fs fname of
        None \<Rightarrow> None
      | Some (Inl e) \<Rightarrow> Some (Inl e)
      | Some (Inr m) \<Rightarrow> parse_files fs fnames (mods @ [m]))"

definition new_test_suite :: "(string \<rightharpoonup> string) \<Rightarrow> filenames \<Rightarrow> (error + test_suite) option" where
  "new_test_suite fs arg =
     (let fnames = (case arg of Str s \<Rightarrow> [s] | StrList l \<Rightarrow> l)
      in case parse_files fs fnames [] of
           None \<Rightarrow> None
         | Some (Inl e) \<Rightarrow> Some (Inl e)
         | Some (Inr mods) \<Rightarrow>
             Some (Inr \<lparr>test_filenames = fnames, test_modules = mods, driver = None, exe = None,
                        asserts = new_test_result, cases = new_test_result, outputfile = None,
                        output_lines = None, all_passed = None, messages = None\<rparr>))"

definition get_num_test_modules :: "test_suite \<Rightarrow> nat" where
  "get_num_test_modules s = length (test_modules s)"

definition get_setup :: "test_suite \<Rightarrow> bool" where
  "get_setup s = list_ex has_setup (test_modules s)"

definition get_teardown :: "test_suite \<Rightarrow> bool" where
  "get_teardown s = list_ex has_teardown (test_modules s)"

subsection \<open>The driver program\<close>

definition run_test_case_line :: "test_subroutine \<Rightarrow> string" where
  "run_test_case_line sub =
     ''  call run_test_case('' @ name sub @ '','' @ [CHR 0x22] @ description sub @ [CHR 0x22] @ '')''"

definition module_lines :: "test_suite \<Rightarrow> test_module \<Rightarrow> string list" where
  "module_lines s m =
     (if get_num_test_modules s > 1 then [''  ! '' @ strip (test_filename m) @ '':''] else [])
     @ map run_test_case_line (subroutines m) @ ['''']"

definition get_driver_lines :: "test_suite \<Rightarrow> string list" where
  "get_driver_lines s =
     [''program tests'', '''', ''  ! Driver program for FRUIT unit tests in:'']
     @ map (\<lambda>m. ''  ! '' @ strip (test_filename m)) (test_modules s)
     @ ['''', ''  ! Generated by FRUITPy.'', '''', ''  use fruit'']
     @ map (\<lambda>m. ''  use '' @ test_module_name m) (test_modules s)
     @ ['''', ''  call init_fruit'']
     @ (if get_setup s then [''  call setup''] else [])
     @ ['''']
     @ concat (map (module_lines s) (test_modules s))
     @ (if get_teardown s then [''  call teardown''] else [])
     @ [''  call fruit_summary'', ''  call fruit_finalize'', '''', ''end program tests'']"

subsection \<open>The world outside: files and the shell\<close>

text \<open>The files (a map from paths to contents) and the commands given to
  \<^verbatim>\<open>subprocess.call\<close> so far, oldest first.\<close>

record world =
  files :: "string \<rightharpoonup> string"
  calls :: "string list"

text \<open>What the program asks of its platform: \<^verbatim>\<open>sys.platform == 'win32'\<close>,
  \<^verbatim>\<open>os.name == "posix"\<close>, \<^verbatim>\<open>os.path.splitext\<close>, and what a shell command does to the
  files.\<close>

record platform =
  win32 :: bool
  posix :: bool
  splitext :: "string \<Rightarrow> string \<times> string"
  shell :: "string \<Rightarrow> (string \<rightharpoonup> string) \<Rightarrow> (string \<rightharpoonup> string)"

definition call :: "platform \<Rightarrow> string \<Rightarrow> world \<Rightarrow> world" where
  "call pf cmd w = w\<lparr>files := shell pf cmd (files w), calls := calls w @ [cmd]\<rparr>"

definition isfile :: "world \<Rightarrow> string \<Rightarrow> bool" where
  "isfile w p = (files w p \<noteq> None)"

definition remove :: "string \<Rightarrow> world \<Rightarrow> world" where
  "remove p w = w\<lparr>files := (files w)(p := None)\<rparr>"

subsection \<open>The result parser\<close>

definition get_output_lines :: "test_suite \<Rightarrow> world \<Rightarrow> error + test_suite" where
  "get_output_lines s w =
     (case outputfile s of
        None \<Rightarrow> Inl AttributeError
      | Some p \<Rightarrow>
          Inr (s\<lparr>output_lines :=
                   Some (case files w p of None \<Rightarrow> [] | Some text \<Rightarrow> readlines text)\<rparr>))"

definition get_success :: "test_suite \<Rightarrow> error + test_suite" where
  "get_success s =
     (case output_lines s of
        None \<Rightarrow> Inl AttributeError
      | Some ls \<Rightarrow> Inr (s\<lparr>all_passed := Some (list_ex (sublist ''SUCCESSFUL!'') ls)\<rparr>))"

text \<open>The inner loop of \<^verbatim>\<open>get_messages\<close>, over the lines after the heading: the
  messages appended up to its \<^verbatim>\<open>break\<close>.\<close>

fun messages_until_end :: "string list \<Rightarrow> string list" where
  "messages_until_end [] = []"
| "messages_until_end (msg # rest) =
     (if sublist ''end of failed assertion messages.'' msg then []
      else strip msg # messages_until_end rest)"

text \<open>The outer loop: it ends at the first heading, after the inner loop.\<close>

fun messages_of :: "string list \<Rightarrow> string list" where
  "messages_of [] = []"
| "messages_of (line # rest) =
     (if sublist ''Failed assertion messages:'' line then messages_until_end rest
      else messages_of rest)"

definition get_messages :: "test_suite \<Rightarrow> error + test_suite" where
  "get_messages s =
     (case all_passed s of
        None \<Rightarrow> Inl AttributeError
      | Some ok \<Rightarrow>
          if \<not> ok then
            (case output_lines s of
               None \<Rightarrow> Inl AttributeError
             | Some ls \<Rightarrow> Inr (s\<lparr>messages := Some (messages_of ls)\<rparr>))
          else Inr (s\<lparr>messages := Some []\<rparr>))"

definition parse_summary_line :: "string \<Rightarrow> error + int \<times> int" where
  "parse_summary_line line =
     (let items = split_ws line
      in case index_of ''/'' (rev items) of
           Inl e \<Rightarrow> Inl e
         | Inr k \<Rightarrow>
             (let slashpos = - (int k + 1)
              in case item items (slashpos - 1) of
                   Inl e \<Rightarrow> Inl e
                 | Inr a \<Rightarrow>
                     (case py_int a of
                        Inl e \<Rightarrow> Inl e
                      | Inr x \<Rightarrow>
                          (case item items (slashpos + 1) of
                             Inl e \<Rightarrow> Inl e
                           | Inr b \<Rightarrow>
                               (case py_int b of
                                  Inl e \<Rightarrow> Inl e
                                | Inr y \<Rightarrow> Inr (x, y))))))"

text \<open>The loop of \<^verbatim>\<open>get_statistics\<close> over the lines that are left, on the two
  counters (asserts, cases). It has no \<^verbatim>\<open>break\<close>: every heading assigns again.
  \<^verbatim>\<open>self.output_lines[i + 1]\<close> is the head of the rest.\<close>

fun statistics_loop ::
  "string list \<Rightarrow> test_result \<times> test_result \<Rightarrow> error + test_result \<times> test_result" where
  "statistics_loop [] ac = Inr ac"
| "statistics_loop (line # rest) ac =
     (if sublist ''Successful asserts / total asserts'' line then
        (case parse_summary_line line of
           Inl e \<Rightarrow> Inl e
         | Inr (s1, t1) \<Rightarrow>
             (case item rest 0 of
                Inl e \<Rightarrow> Inl e
              | Inr next_line \<Rightarrow>
                  (case parse_summary_line next_line of
                     Inl e \<Rightarrow> Inl e
                   | Inr (s2, t2) \<Rightarrow>
                       statistics_loop rest
                         ((fst ac)\<lparr>success := s1, total := t1\<rparr>,
                          (snd ac)\<lparr>success := s2, total := t2\<rparr>))))
      else statistics_loop rest ac)"

definition get_statistics :: "test_suite \<Rightarrow> error + test_suite" where
  "get_statistics s =
     (case output_lines s of
        None \<Rightarrow> Inl AttributeError
      | Some ls \<Rightarrow>
          (case statistics_loop ls (asserts s, cases s) of
             Inl e \<Rightarrow> Inl e
           | Inr (a, c) \<Rightarrow> Inr (s\<lparr>asserts := a, cases := c\<rparr>)))"

definition parse_output_file :: "test_suite \<Rightarrow> world \<Rightarrow> error + test_suite" where
  "parse_output_file s w =
     (case get_output_lines s w of
        Inl e \<Rightarrow> Inl e
      | Inr s1 \<Rightarrow>
          (case get_success s1 of
             Inl e \<Rightarrow> Inl e
           | Inr s2 \<Rightarrow>
               (case get_messages s2 of
                  Inl e \<Rightarrow> Inl e
                | Inr s3 \<Rightarrow> get_statistics s3)))"

subsection \<open>Writing, building and running\<close>

text \<open>\<^verbatim>\<open>test_suite.write\<close> is \<open>write_driver\<close>.\<close>

definition write_driver :: "test_suite \<Rightarrow> string \<Rightarrow> world \<Rightarrow> test_suite \<times> world" where
  "write_driver s drv w =
     (let s1 = s\<lparr>driver := Some drv\<rparr>
      in (s1, w\<lparr>files := (files w)(drv \<mapsto> join [CHR 0x0A] (get_driver_lines s1))\<rparr>))"

definition build ::
  "platform \<Rightarrow> test_suite \<Rightarrow> string \<Rightarrow> world \<Rightarrow> error + bool \<times> test_suite \<times> world" where
  "build pf s build_command w =
     (case driver s of
        None \<Rightarrow> Inl AttributeError
      | Some drv \<Rightarrow>
          (let exe0 = fst (splitext pf drv);
               exe1 = (if win32 pf then exe0 @ ''.exe'' else exe0);
               w1 = (if isfile w exe1 then remove exe1 w else w);
               w2 = call pf build_command w1
           in Inr (isfile w2 exe1, s\<lparr>exe := Some exe1\<rparr>, w2)))"

definition run :: "platform \<Rightarrow> test_suite \<Rightarrow> world \<Rightarrow> error + bool \<times> test_suite \<times> world" where
  "run pf s w =
     (if posix pf \<and> exe s = None then Inl TypeError
      else
        (case driver s of
           None \<Rightarrow> Inl AttributeError
         | Some drv \<Rightarrow>
             (let basename = fst (splitext pf drv);
                  s1 = s\<lparr>outputfile := Some (basename @ ''.out'')\<rparr>
              in case exe s of
                   None \<Rightarrow> Inl TypeError
                 | Some e \<Rightarrow>
                     (let cmd = (if posix pf then ''./'' @ e else e) @ '' > '' @ basename @ ''.out'';
                          w1 = call pf cmd w
                      in case parse_output_file s1 w1 of
                           Inl err \<Rightarrow> Inl err
                         | Inr s2 \<Rightarrow>
                             (case all_passed s2 of
                                None \<Rightarrow> Inl AttributeError
                              | Some ok \<Rightarrow> Inr (ok, s2, w1))))))"

definition build_run ::
  "platform \<Rightarrow> test_suite \<Rightarrow> string \<Rightarrow> string \<Rightarrow> world \<Rightarrow> error + bool \<times> test_suite \<times> world" where
  "build_run pf s drv build_command w =
     (if get_num_test_modules s > 0 then
        (case write_driver s drv w of (s1, w1) \<Rightarrow>
           (case build pf s1 build_command w1 of
              Inl e \<Rightarrow> Inl e
            | Inr (built, s2, w2) \<Rightarrow> if built then run pf s2 w2 else Inr (False, s2, w2)))
      else Inr (False, s, w))"

text \<open>What a caller of \<^verbatim>\<open>build_run\<close> observes: the value returned (or the exception) and
  the commands that were run.\<close>

definition outcome :: "error + bool \<times> test_suite \<times> world \<Rightarrow> error + bool \<times> string list" where
  "outcome r = (case r of Inl e \<Rightarrow> Inl e | Inr (ok, s, w) \<Rightarrow> Inr (ok, calls w))"

subsection \<open>Example inputs\<close>

text \<open>An arithmetic for the floats: the reals, where no operation rounds.\<close>

definition exact_floats :: "real float_ops" where
  "exact_floats =
     \<lparr>to_float = real_of_int, is_zero = (\<lambda>x. x = 0), fdiv = (\<lambda>a b. a / b),
      fmul = (\<lambda>a b. a * b), float_100 = 100, float_0 = 0\<rparr>"

text \<open>A POSIX platform on which \<^verbatim>\<open>make\<close> creates the executable \<^verbatim>\<open>tests\<close>, and the
  executable writes one line to its output.\<close>

definition example_platform :: platform where
  "example_platform =
     \<lparr>win32 = False, posix = True,
      splitext = (\<lambda>p. if p = ''tests.f90'' then (''tests'', ''.f90'') else (p, [])),
      shell = (\<lambda>cmd fs.
         if cmd = ''make'' then fs(''tests'' \<mapsto> [])
         else if cmd = ''./tests > tests.out'' then fs(''tests.out'' \<mapsto> ''SUCCESSFUL!'')
         else fs)\<rparr>"

text \<open>A source file with a module and no subroutine, and the suite built from it.\<close>

definition example_files :: "string \<rightharpoonup> string" where
  "example_files = [''t.f90'' \<mapsto> ''module m\<newline>'']"

definition one_module_suite :: test_suite where
  "one_module_suite =
     \<lparr>test_filenames = [''t.f90''],
      test_modules = [\<lparr>test_filename = ''t.f90'', test_module_name = ''m'', has_setup = False,
                       has_teardown = False, subroutines = []\<rparr>],
      driver = None, exe = None, asserts = new_test_result, cases = new_test_result,
      outputfile = None, output_lines = None, all_passed = None, messages = None\<rparr>"

text \<open>The suite built from no file at all.\<close>

definition empty_suite :: test_suite where
  "empty_suite =
     \<lparr>test_filenames = [], test_modules = [], driver = None, exe = None,
      asserts = new_test_result, cases = new_test_result,
      outputfile = None, output_lines = None, all_passed = None, messages = None\<rparr>"

text \<open>A suite whose output has been read, with the success flag set.\<close>

definition suite_with_output :: "string list \<Rightarrow> bool \<Rightarrow> test_suite" where
  "suite_with_output ls ok =
     one_module_suite\<lparr>driver := Some ''tests.f90'', exe := Some ''tests'',
       outputfile := Some ''tests.out'', output_lines := Some ls, all_passed := Some ok,
       messages := Some []\<rparr>"

section \<open>Properties\<close>

subsection \<open>Evaluation of the string primitives on literals\<close>

lemmas str_eval =
  lower_def lower_char_def isspace_def strip_def split_ws_def str_find_def slice_from_def
  slice_to_def item_def readline_def readlines_def digit_of_def unsigned_int_def py_int_def
  sublist_code prefix_code Let_def

subsection \<open>Lists, indices and search\<close>

lemma index_of_first: "x \<notin> set xs \<Longrightarrow> index_of x (xs @ x # ys) = Inr (length xs)"
  by (induction xs) auto

lemma item_from_end:
  "0 < k \<Longrightarrow> k \<le> length xs \<Longrightarrow> item xs (- int k) = Inr (xs ! (length xs - k))"
  by (simp add: item_def Let_def nat_diff_distrib')

lemma find_from_absent: "\<not> sublist sub s \<Longrightarrow> find_from i sub s = - 1"
  by (induction s arbitrary: i) (auto simp: sublist_Cons_right)

lemma find_from_first:
  "s = pre @ rest \<Longrightarrow> prefix sub rest \<Longrightarrow> \<forall>j<length pre. \<not> prefix sub (drop j s) \<Longrightarrow>
   find_from i sub s = int (i + length pre)"
proof (induction pre arbitrary: s i)
  case Nil
  then show ?case by (cases rest) auto
next
  case (Cons p ps)
  from Cons.prems(3) have "\<not> prefix sub (drop 0 s)" by (metis length_greater_0_conv list.distinct(1))
  then have no: "\<not> prefix sub (p # ps @ rest)" using Cons.prems(1) by simp
  have later: "\<forall>j<length ps. \<not> prefix sub (drop j (ps @ rest))"
  proof (intro allI impI)
    fix j assume "j < length ps"
    then have "Suc j < length (p # ps)" by simp
    with Cons.prems(3) have "\<not> prefix sub (drop (Suc j) s)" by blast
    then show "\<not> prefix sub (drop j (ps @ rest))" using Cons.prems(1) by simp
  qed
  have "find_from (Suc i) sub (ps @ rest) = int (Suc i + length ps)"
    using Cons.IH [OF refl Cons.prems(2) later] .
  with no show ?case using Cons.prems(1) by simp
qed

lemma first_occurrence:
  "sublist sub s \<Longrightarrow>
   \<exists>pre rest. s = pre @ rest \<and> prefix sub rest \<and> (\<forall>j<length pre. \<not> prefix sub (drop j s))"
proof (induction s)
  case Nil
  then have sub: "sub = []" by simp
  show ?case
  proof (intro exI conjI)
    show "[] = [] @ []" by simp
    show "prefix sub []" using sub by simp
    show "\<forall>j<length []. \<not> prefix sub (drop j [])" by simp
  qed
next
  case (Cons c cs)
  show ?case
  proof (cases "prefix sub (c # cs)")
    case True
    show ?thesis
    proof (intro exI conjI)
      show "c # cs = [] @ (c # cs)" by simp
      show "prefix sub (c # cs)" by (rule True)
      show "\<forall>j<length []. \<not> prefix sub (drop j (c # cs))" by simp
    qed
  next
    case False
    with Cons.prems have "sublist sub cs" by (simp add: sublist_Cons_right)
    from Cons.IH [OF this] obtain pre rest where cs: "cs = pre @ rest" and p: "prefix sub rest"
      and first: "\<forall>j<length pre. \<not> prefix sub (drop j cs)"
      by (elim exE conjE)
    have later: "\<not> prefix sub (drop j (c # cs))" if j: "j < length (c # pre)" for j
    proof (cases j)
      case 0
      with False show ?thesis by simp
    next
      case (Suc k)
      with j have "k < length pre" by simp
      with first have "\<not> prefix sub (drop k cs)" by simp
      with Suc show ?thesis by simp
    qed
    show ?thesis
    proof (intro exI conjI)
      show "c # cs = (c # pre) @ rest" using cs by simp
      show "prefix sub rest" by (rule p)
      show "\<forall>j<length (c # pre). \<not> prefix sub (drop j (c # cs))" using later by simp
    qed
  qed
qed

lemma find_char:
  "str_find t [c] = (if c \<in> set t then int (length (takeWhile (\<lambda>x. x \<noteq> c) t)) else - 1)"
proof -
  have "find_from i [c] t = (if c \<in> set t then int (i + length (takeWhile (\<lambda>x. x \<noteq> c) t)) else - 1)" for i
    by (induction t arbitrary: i) auto
  then show ?thesis by (simp add: str_find_def)
qed

lemma takeWhile_absent: "c \<notin> set t \<Longrightarrow> takeWhile (\<lambda>x. x \<noteq> c) t = t"
  by (induction t) auto

lemma slice_to_takeWhile: "slice_to t (int (length (takeWhile P t))) = takeWhile P t"
  by (simp add: slice_to_def takeWhile_eq_take [symmetric])

lemma slice_from_takeWhile:
  "c \<in> set t \<Longrightarrow> slice_from t (int (length (takeWhile (\<lambda>x. x \<noteq> c) t)) + 1) = tl (dropWhile (\<lambda>x. x \<noteq> c) t)"
  by (simp add: slice_from_def nat_add_distrib dropWhile_eq_drop drop_Suc tl_drop)

lemma lower_append: "lower (xs @ ys) = lower xs @ lower ys"
  by (simp add: lower_def)

lemma strip_empty_iff: "strip s = [] \<longleftrightarrow> (\<forall>c \<in> set s. isspace c)"
proof
  assume "strip s = []"
  then have all: "\<forall>c \<in> set (dropWhile isspace s). isspace c"
    by (simp add: strip_def dropWhile_eq_Nil_conv)
  have "dropWhile isspace s = []"
  proof (cases "dropWhile isspace s")
    case Nil
    then show ?thesis .
  next
    case (Cons d ds)
    then have "\<not> isspace d" using hd_dropWhile [of isspace s] by simp
    moreover have "isspace d" using all Cons by simp
    ultimately show ?thesis by simp
  qed
  then show "\<forall>c \<in> set s. isspace c" by (simp add: dropWhile_eq_Nil_conv)
next
  assume "\<forall>c \<in> set s. isspace c"
  then show "strip s = []" by (auto simp: strip_def dest: set_dropWhileD)
qed

lemma second_token_of_one_char: "length s \<le> 1 \<Longrightarrow> item (split_ws (strip s)) 1 = Inl IndexError"
proof (cases s)
  case Nil
  then show ?thesis by (simp add: strip_def split_ws_def item_def)
next
  case (Cons c cs)
  assume "length s \<le> 1"
  with Cons have "s = [c]" by simp
  then show ?thesis by (simp add: strip_def split_ws_def item_def)
qed

subsection \<open>Reading lines\<close>

lemma readline_Nil: "readline [] = ([], [])"
  by (simp add: readline_def)

lemma readline_Cons:
  "readline (c # cs) =
     (if c = CHR 0x0A then ([c], cs) else (c # fst (readline cs), snd (readline cs)))"
proof (cases "c = CHR 0x0A")
  case True
  then show ?thesis by (simp add: readline_def)
next
  case False
  then have d: "dropWhile (\<lambda>c. c \<noteq> CHR 0x0A) (c # cs) = dropWhile (\<lambda>c. c \<noteq> CHR 0x0A) cs"
    and t: "takeWhile (\<lambda>c. c \<noteq> CHR 0x0A) (c # cs) = c # takeWhile (\<lambda>c. c \<noteq> CHR 0x0A) cs"
    by simp_all
  show ?thesis
  proof (cases "dropWhile (\<lambda>c. c \<noteq> CHR 0x0A) cs")
    case Nil
    show ?thesis unfolding readline_def d t Nil using False by simp
  next
    case (Cons x xs)
    show ?thesis unfolding readline_def d t Cons using False by simp
  qed
qed

lemma readline_append: "readline f = (l, f') \<Longrightarrow> f = l @ f'"
proof -
  assume r: "readline f = (l, f')"
  have split: "f = takeWhile (\<lambda>c. c \<noteq> CHR 0x0A) f @ dropWhile (\<lambda>c. c \<noteq> CHR 0x0A) f" by simp
  show ?thesis
  proof (cases "dropWhile (\<lambda>c. c \<noteq> CHR 0x0A) f")
    case Nil
    with r show ?thesis by (simp add: readline_def)
  next
    case (Cons nl rest)
    with r have "l = takeWhile (\<lambda>c. c \<noteq> CHR 0x0A) f @ [nl]" "f' = rest"
      by (simp_all add: readline_def)
    with split Cons show ?thesis by simp
  qed
qed

lemma readline_shorter: "f \<noteq> [] \<Longrightarrow> readline f = (l, f') \<Longrightarrow> l \<noteq> [] \<and> length f' < length f"
proof -
  assume ne: "f \<noteq> []" and r: "readline f = (l, f')"
  have f: "f = l @ f'" using r by (rule readline_append)
  have "l \<noteq> []"
  proof (cases "dropWhile (\<lambda>c. c \<noteq> CHR 0x0A) f")
    case Nil
    with r ne show ?thesis by (simp add: readline_def)
  next
    case (Cons nl rest)
    with r show ?thesis by (auto simp: readline_def)
  qed
  with f show ?thesis by (metis length_append length_greater_0_conv less_add_same_cancel2)
qed

lemma lines_from_readline:
  "f \<noteq> [] \<Longrightarrow> lines_from cur f = (cur @ fst (readline f)) # lines_from [] (snd (readline f))"
proof (induction f arbitrary: cur)
  case Nil
  then show ?case by simp
next
  case (Cons c cs)
  show ?case
  proof (cases "cs = []")
    case True
    then show ?thesis by (simp add: readline_Cons readline_Nil)
  next
    case False
    then show ?thesis using Cons.IH [of "cur @ [c]"] by (simp add: readline_Cons)
  qed
qed

lemma readlines_readline:
  "f \<noteq> [] \<Longrightarrow> readline f = (l, f') \<Longrightarrow> readlines f = l # readlines f'"
  by (simp add: readlines_def lines_from_readline)

lemma concat_lines_from: "concat (lines_from cur f) = cur @ f"
  by (induction f arbitrary: cur) auto

lemma concat_readlines: "concat (readlines f) = f"
  by (simp add: readlines_def concat_lines_from)

lemma readlines_Nil: "readlines [] = []"
  by (simp add: readlines_def)

subsection \<open>The loops of the scanner\<close>

text \<open>At the end of the file \<^verbatim>\<open>readline\<close> returns the empty string, which has no keyword
  in it and is blank: neither loop leaves that state.\<close>

lemma module_line_eof: "module_line [] [] = None"
proof (rule ccontr)
  assume "module_line [] [] \<noteq> None"
  then obtain r where ret: "module_line [] [] = Some r" by auto
  have "([], []) \<noteq> (([], []) :: string \<times> string)"
  proof (rule module_line.raw_induct [where P = "\<lambda>line f r. (line, f) \<noteq> ([], [])", OF _ ret])
    fix g :: "string \<Rightarrow> string \<Rightarrow> (string \<times> string) option" and line f r
    assume IH: "\<And>line f r. g line f = Some r \<Longrightarrow> (line, f) \<noteq> ([], [])"
      and step: "(if \<not> sublist ''module'' (lower line)
                  then (case readline f of (line', f') \<Rightarrow> g line' f')
                  else Some (line, f)) = Some r"
    show "(line, f) \<noteq> ([], [])"
    proof
      assume "(line, f) = ([], [])"
      with step have "g [] [] = Some r" by (simp add: readline_Nil lower_def)
      with IH show False by blast
    qed
  qed
  then show False by simp
qed

lemma module_line_never_returns:
  "\<not> sublist ''module'' (lower line) \<Longrightarrow> \<not> sublist ''module'' (lower f) \<Longrightarrow>
   module_line line f = None"
proof (induction f arbitrary: line rule: length_induct)
  case (1 f)
  show ?case
  proof (cases "f = []")
    case True
    have "module_line line [] = module_line [] []"
      using "1.prems"(1) by (subst module_line.simps) (simp add: readline_Nil)
    with True show ?thesis by (simp add: module_line_eof)
  next
    case False
    obtain l f' where r: "readline f = (l, f')" by (cases "readline f")
    from False r have shorter: "length f' < length f" by (simp add: readline_shorter)
    from r have f: "f = l @ f'" by (rule readline_append)
    have nl: "\<not> sublist ''module'' (lower l)" and nf: "\<not> sublist ''module'' (lower f')"
      using "1.prems"(2) unfolding f lower_append by (auto simp: sublist_append)
    have "module_line l f' = None" using "1.IH" shorter nl nf by blast
    then show ?thesis using "1.prems"(1) r by (subst module_line.simps) simp
  qed
qed

lemma nonblank_line_eof: "nonblank_line [] [] = None"
proof (rule ccontr)
  assume "nonblank_line [] [] \<noteq> None"
  then obtain r where ret: "nonblank_line [] [] = Some r" by auto
  have "([], []) \<noteq> (([], []) :: string \<times> string)"
  proof (rule nonblank_line.raw_induct [where P = "\<lambda>line f r. (line, f) \<noteq> ([], [])", OF _ ret])
    fix g :: "string \<Rightarrow> string \<Rightarrow> (string \<times> string) option" and line f r
    assume IH: "\<And>line f r. g line f = Some r \<Longrightarrow> (line, f) \<noteq> ([], [])"
      and step: "(if strip line = []
                  then (case readline f of (line', f') \<Rightarrow> g line' f')
                  else Some (line, f)) = Some r"
    show "(line, f) \<noteq> ([], [])"
    proof
      assume "(line, f) = ([], [])"
      with step have "g [] [] = Some r" by (simp add: readline_Nil strip_def)
      with IH show False by blast
    qed
  qed
  then show False by simp
qed

lemma nonblank_line_never_returns:
  "strip line = [] \<Longrightarrow> strip f = [] \<Longrightarrow> nonblank_line line f = None"
proof (induction f arbitrary: line rule: length_induct)
  case (1 f)
  show ?case
  proof (cases "f = []")
    case True
    have "nonblank_line line [] = nonblank_line [] []"
      using "1.prems"(1) by (subst nonblank_line.simps) (simp add: readline_Nil)
    with True show ?thesis by (simp add: nonblank_line_eof)
  next
    case False
    obtain l f' where r: "readline f = (l, f')" by (cases "readline f")
    from False r have shorter: "length f' < length f" by (simp add: readline_shorter)
    from r have f: "f = l @ f'" by (rule readline_append)
    have "strip l = []" "strip f' = []"
      using "1.prems"(2) unfolding f strip_empty_iff by auto
    with "1.IH" shorter have "nonblank_line l f' = None" by blast
    then show ?thesis using "1.prems"(1) r by (subst nonblank_line.simps) simp
  qed
qed

text \<open>The loop over blank lines stops at the first line that is not blank, and the file is
  then at the line after it.\<close>

lemma nonblank_line_found:
  "readlines f = blanks @ L # after \<Longrightarrow> \<forall>b \<in> set blanks. strip b = [] \<Longrightarrow> strip L \<noteq> [] \<Longrightarrow>
   (case readline f of (l, f') \<Rightarrow> nonblank_line l f') = Some (L, concat after)"
proof (induction blanks arbitrary: f)
  case Nil
  then have ne: "f \<noteq> []" by (auto simp: readlines_Nil)
  obtain l f' where r: "readline f = (l, f')" by (cases "readline f")
  from readlines_readline [OF ne r] Nil.prems(1) have "l = L" "readlines f' = after" by simp_all
  then have "f' = concat after" using concat_readlines [of f'] by simp
  then show ?case using r \<open>l = L\<close> Nil.prems(3) by (simp add: nonblank_line.simps)
next
  case (Cons b bs)
  then have ne: "f \<noteq> []" by (auto simp: readlines_Nil)
  obtain l f' where r: "readline f = (l, f')" by (cases "readline f")
  from readlines_readline [OF ne r] Cons.prems(1)
  have l: "l = b" and rest: "readlines f' = bs @ L # after" by simp_all
  have "(case readline f' of (l, f'') \<Rightarrow> nonblank_line l f'') = Some (L, concat after)"
    using Cons.IH [OF rest] Cons.prems(2,3) by simp
  moreover have "strip b = []" using Cons.prems(2) by simp
  ultimately show ?case using r l by (simp add: nonblank_line.simps [of b f'])
qed

subsection \<open>The module name\<close>

text \<open>
  \<^bold>\<open>C2.\<close> The loop of \<^verbatim>\<open>parse_test_module_name\<close> looks for \<^verbatim>\<open>module\<close> in the lowered
  line, but \<^verbatim>\<open>line.find('module')\<close> searches the line as it is. When the line the loop
  stops at has the keyword in another case only, \<^verbatim>\<open>find\<close> returns \<open>-1\<close>, the slice
  \<^verbatim>\<open>line[-1:]\<close> has one character at most, and \<^verbatim>\<open>split()[1]\<close> raises \<^verbatim>\<open>IndexError\<close>:
  no module name is set.
\<close>

theorem module_keyword_case_raises:
  assumes first: "readline f = (line0, f0)"
    and found: "module_line line0 f0 = Some (line, f1)"
    and upper: "\<not> sublist ''module'' line"
  shows "parse_test_module_name f = Some (Inl IndexError)"
proof -
  have imod: "str_find line ''module'' = - 1"
    using upper by (simp add: str_find_def find_from_absent)
  have "length (slice_from line (- 1)) \<le> 1" by (simp add: slice_from_def)
  then have "item (split_ws (strip (slice_from line (- 1)))) 1 = Inl IndexError"
    by (rule second_token_of_one_char)
  then show ?thesis by (simp add: parse_test_module_name_def first found imod)
qed

theorem module_keyword_case_raises_witness:
  "readline ''MODULE foo_test\<newline>contains\<newline>'' = (''MODULE foo_test\<newline>'', ''contains\<newline>'')
   \<and> module_line ''MODULE foo_test\<newline>'' ''contains\<newline>'' = Some (''MODULE foo_test\<newline>'', ''contains\<newline>'')
   \<and> \<not> sublist ''module'' ''MODULE foo_test\<newline>''
   \<and> parse_test_module_name ''MODULE foo_test\<newline>contains\<newline>'' = Some (Inl IndexError)"
  using module_keyword_case_raises [of "''MODULE foo_test\<newline>contains\<newline>''" "''MODULE foo_test\<newline>''" "''contains\<newline>''"
      "''MODULE foo_test\<newline>''" "''contains\<newline>''"]
  by (simp add: module_line.simps str_eval)

text \<open>
  \<^bold>\<open>C3.\<close> When no line of the file contains \<^verbatim>\<open>module\<close> in any case, the loop of
  \<^verbatim>\<open>parse_test_module_name\<close> reads the empty line of the end of the file again and again:
  the scanner does not return and raises nothing, and neither does the constructor of the
  suite.
\<close>

theorem no_module_declaration_never_returns:
  assumes "\<not> sublist ''module'' (lower f)"
  shows "parse_test_module_name f = None
       \<and> (fs p = Some f \<longrightarrow> new_test_suite fs (Str p) = None)"
proof -
  obtain l f' where r: "readline f = (l, f')" by (cases "readline f")
  from r have f: "f = l @ f'" by (rule readline_append)
  have "\<not> sublist ''module'' (lower l)" "\<not> sublist ''module'' (lower f')"
    using assms unfolding f lower_append by (auto simp: sublist_append)
  then have "module_line l f' = None" by (rule module_line_never_returns)
  then have "parse_test_module_name f = None" by (simp add: parse_test_module_name_def r)
  then show ?thesis by (simp add: new_test_suite_def new_test_module_def)
qed

theorem no_module_declaration_never_returns_witness:
  "\<not> sublist ''module'' (lower ''program main\<newline>end program main\<newline>'')
   \<and> parse_test_module_name ''program main\<newline>end program main\<newline>'' = None
   \<and> new_test_suite [''p.f90'' \<mapsto> ''program main\<newline>end program main\<newline>''] (Str ''p.f90'') = None"
  using no_module_declaration_never_returns [of "''program main\<newline>end program main\<newline>''"
      "[''p.f90'' \<mapsto> ''program main\<newline>end program main\<newline>'']" "''p.f90''"]
  by (simp add: str_eval)

subsection \<open>Subroutine declarations\<close>

lemma keyword_position:
  assumes "line = pre @ rest" and "prefix ''subroutine'' (lower rest)"
    and "\<forall>j<length pre. \<not> prefix ''subroutine'' (drop j (lower line))"
  shows "str_find (lower line) ''subroutine'' = int (length pre)"
proof -
  have "find_from 0 ''subroutine'' (lower line) = int (0 + length (lower pre))"
    using assms by (intro find_from_first [where rest = "lower rest"]) (simp_all add: lower_def)
  then show ?thesis by (simp add: str_find_def lower_def)
qed

text \<open>A line whose lowered form contains the keyword has such a first occurrence.\<close>

lemma keyword_split_exists:
  assumes "sublist ''subroutine'' (lower line)"
  shows "\<exists>pre rest. line = pre @ rest \<and> prefix ''subroutine'' (lower rest)
           \<and> (\<forall>j<length pre. \<not> prefix ''subroutine'' (drop j (lower line)))"
proof -
  from first_occurrence [OF assms] obtain p r where l: "lower line = p @ r"
    and pr: "prefix ''subroutine'' r"
    and first: "\<forall>j<length p. \<not> prefix ''subroutine'' (drop j (lower line))"
    by (elim exE conjE)
  have "length (lower line) = length line" by (simp add: lower_def)
  with l have len: "length p \<le> length line" by simp
  have "lower (drop (length p) line) = drop (length p) (lower line)"
    by (simp add: lower_def drop_map)
  with l have r: "lower (drop (length p) line) = r" by simp
  show ?thesis
  proof (intro exI conjI)
    show "line = take (length p) line @ drop (length p) line" by simp
    show "prefix ''subroutine'' (lower (drop (length p) line))" using pr r by simp
    show "\<forall>j<length (take (length p) line). \<not> prefix ''subroutine'' (drop j (lower line))"
      using first len by simp
  qed
qed

lemma sub_name_second_token:
  assumes pos: "str_find (lower line) ''subroutine'' = int (length pre)" and line: "line = pre @ rest"
  shows "split_ws (strip rest) = t0 # t1 # ts \<Longrightarrow>
           sub_name line = Inr (takeWhile (\<lambda>c. c \<noteq> CHR ''('') t1)"
    and "length (split_ws (strip rest)) < 2 \<Longrightarrow> sub_name line = Inl IndexError"
proof -
  have rest: "slice_from line (int (length pre)) = rest" by (simp add: slice_from_def line)
  {
    assume toks: "split_ws (strip rest) = t0 # t1 # ts"
    show "sub_name line = Inr (takeWhile (\<lambda>c. c \<noteq> CHR ''('') t1)"
      by (simp add: sub_name_def pos rest toks item_def find_char slice_to_takeWhile
          takeWhile_absent)
  }
  {
    assume "length (split_ws (strip rest)) < 2"
    then show "sub_name line = Inl IndexError"
      by (simp add: sub_name_def pos rest item_def)
  }
qed

text \<open>What \<^verbatim>\<open>parse_subroutine\<close> does with the name of an accepted line: a test case is
  appended once the line of its description is found, a hook sets its flag, and any other
  name changes nothing; neither of the last two reads a line.\<close>

lemma subroutine_type_test: "prefix ''test_'' (lower nm) \<Longrightarrow> subroutine_type nm = Some Test"
  by (auto simp: subroutine_type_def Let_def)

lemma parse_subroutine_hooks:
  assumes "sub_accepted line" and "sub_name line = Inr nm"
  shows "lower nm = ''setup'' \<Longrightarrow> parse_subroutine f line m = Some (Inr (f, m\<lparr>has_setup := True\<rparr>))"
    and "lower nm = ''teardown'' \<Longrightarrow>
           parse_subroutine f line m = Some (Inr (f, m\<lparr>has_teardown := True\<rparr>))"
    and "lower nm \<noteq> ''setup'' \<Longrightarrow> lower nm \<noteq> ''teardown'' \<Longrightarrow> \<not> prefix ''test_'' (lower nm) \<Longrightarrow>
           parse_subroutine f line m = Some (Inr (f, m))"
  using assms by (simp_all add: parse_subroutine_def subroutine_type_def)

lemma description_of_line:
  "(if str_find L ''!'' \<ge> 0 then strip (slice_from L (str_find L ''!'' + 1)) else nm)
   = (if CHR ''!'' \<in> set L then strip (tl (dropWhile (\<lambda>c. c \<noteq> CHR ''!'') L)) else nm)"
  by (simp add: find_char slice_from_takeWhile)

lemma parse_subroutine_test_case:
  assumes "sub_accepted line" and "sub_name line = Inr nm" and "prefix ''test_'' (lower nm)"
    and "readlines f = blanks @ L # after" and "\<forall>b \<in> set blanks. strip b = []"
    and "strip L \<noteq> []"
  shows "parse_subroutine f line m =
           Some (Inr (concat after,
             m\<lparr>subroutines := subroutines m @
                 [\<lparr>name = nm,
                   description = (if CHR ''!'' \<in> set L
                                  then strip (tl (dropWhile (\<lambda>c. c \<noteq> CHR ''!'') L))
                                  else nm)\<rparr>]\<rparr>))"
proof -
  have "(case readline f of (l, f') \<Rightarrow> nonblank_line l f') = Some (L, concat after)"
    using assms(4-6) by (rule nonblank_line_found)
  moreover have "subroutine_type nm = Some Test" using assms(3) by (rule subroutine_type_test)
  ultimately show ?thesis
    using assms(1,2) description_of_line [of L nm]
    by (simp add: parse_subroutine_def Let_def split: prod.splits)
qed

text \<open>
  \<^bold>\<open>C5.\<close> Let \<open>pre\<close> be the text of the line before the first \<^verbatim>\<open>subroutine\<close> of the
  lowered line, and \<open>rest\<close> the line from there on. The line is rejected exactly when
  \<open>pre\<close> contains \<^verbatim>\<open>!\<close> or, in any case, \<^verbatim>\<open>end\<close>; a rejected line changes nothing. The
  name of the subroutine is the second token of \<open>rest\<close>, up to its first \<^verbatim>\<open>(\<close>, and it
  is this name that \<^verbatim>\<open>parse_subroutine\<close> acts on for an accepted line: the name of the test
  case it appends, the hook whose flag it sets, or a name it ignores. An accepted line
  without a second token raises \<^verbatim>\<open>IndexError\<close>.
\<close>

theorem subroutine_declaration:
  assumes "line = pre @ rest" and "prefix ''subroutine'' (lower rest)"
    and "\<forall>j<length pre. \<not> prefix ''subroutine'' (drop j (lower line))"
  shows "(\<not> sub_accepted line \<longleftrightarrow> CHR ''!'' \<in> set pre \<or> sublist ''end'' (lower pre))
       \<and> (\<not> sub_accepted line \<longrightarrow> parse_subroutine f line m = Some (Inr (f, m)))
       \<and> (split_ws (strip rest) = t0 # t1 # ts \<longrightarrow>
            sub_name line = Inr (takeWhile (\<lambda>c. c \<noteq> CHR ''('') t1))
       \<and> (sub_accepted line \<longrightarrow> length (split_ws (strip rest)) < 2 \<longrightarrow>
            parse_subroutine f line m = Some (Inl IndexError))
       \<and> (sub_accepted line \<longrightarrow> split_ws (strip rest) = t0 # t1 # ts \<longrightarrow>
            lower (takeWhile (\<lambda>c. c \<noteq> CHR ''('') t1) = ''setup'' \<longrightarrow>
            parse_subroutine f line m = Some (Inr (f, m\<lparr>has_setup := True\<rparr>)))
       \<and> (sub_accepted line \<longrightarrow> split_ws (strip rest) = t0 # t1 # ts \<longrightarrow>
            lower (takeWhile (\<lambda>c. c \<noteq> CHR ''('') t1) = ''teardown'' \<longrightarrow>
            parse_subroutine f line m = Some (Inr (f, m\<lparr>has_teardown := True\<rparr>)))
       \<and> (sub_accepted line \<longrightarrow> split_ws (strip rest) = t0 # t1 # ts \<longrightarrow>
            prefix ''test_'' (lower (takeWhile (\<lambda>c. c \<noteq> CHR ''('') t1)) \<longrightarrow>
            readlines f = blanks @ L # after \<longrightarrow> (\<forall>b \<in> set blanks. strip b = []) \<longrightarrow>
            strip L \<noteq> [] \<longrightarrow>
            parse_subroutine f line m =
              Some (Inr (concat after,
                m\<lparr>subroutines := subroutines m @
                    [\<lparr>name = takeWhile (\<lambda>c. c \<noteq> CHR ''('') t1,
                      description = (if CHR ''!'' \<in> set L
                                     then strip (tl (dropWhile (\<lambda>c. c \<noteq> CHR ''!'') L))
                                     else takeWhile (\<lambda>c. c \<noteq> CHR ''('') t1)\<rparr>]\<rparr>)))
       \<and> (sub_accepted line \<longrightarrow> split_ws (strip rest) = t0 # t1 # ts \<longrightarrow>
            lower (takeWhile (\<lambda>c. c \<noteq> CHR ''('') t1) \<noteq> ''setup'' \<longrightarrow>
            lower (takeWhile (\<lambda>c. c \<noteq> CHR ''('') t1) \<noteq> ''teardown'' \<longrightarrow>
            \<not> prefix ''test_'' (lower (takeWhile (\<lambda>c. c \<noteq> CHR ''('') t1)) \<longrightarrow>
            parse_subroutine f line m = Some (Inr (f, m)))"
proof -
  let ?nm = "takeWhile (\<lambda>c. c \<noteq> CHR ''('') t1"
  have pos: "str_find (lower line) ''subroutine'' = int (length pre)"
    using assms by (rule keyword_position)
  have pre: "sub_pre line = pre"
    unfolding sub_pre_def pos Let_def by (simp add: slice_to_def assms(1))
  have c1: "\<not> sub_accepted line \<longleftrightarrow> CHR ''!'' \<in> set pre \<or> sublist ''end'' (lower pre)"
    by (auto simp: sub_accepted_def pre)
  have c2: "\<not> sub_accepted line \<longrightarrow> parse_subroutine f line m = Some (Inr (f, m))"
    by (simp add: parse_subroutine_def)
  have nm: "sub_name line = Inr ?nm" if "split_ws (strip rest) = t0 # t1 # ts"
    using sub_name_second_token(1) [OF pos assms(1) that] .
  have c4: "sub_accepted line \<longrightarrow> length (split_ws (strip rest)) < 2 \<longrightarrow>
      parse_subroutine f line m = Some (Inl IndexError)"
    using sub_name_second_token(2) [OF pos assms(1)] by (simp add: parse_subroutine_def)
  have c5: "sub_accepted line \<longrightarrow> split_ws (strip rest) = t0 # t1 # ts \<longrightarrow>
      lower ?nm = ''setup'' \<longrightarrow> parse_subroutine f line m = Some (Inr (f, m\<lparr>has_setup := True\<rparr>))"
    using nm parse_subroutine_hooks(1) by blast
  have c6: "sub_accepted line \<longrightarrow> split_ws (strip rest) = t0 # t1 # ts \<longrightarrow>
      lower ?nm = ''teardown'' \<longrightarrow>
      parse_subroutine f line m = Some (Inr (f, m\<lparr>has_teardown := True\<rparr>))"
    using nm parse_subroutine_hooks(2) by blast
  have c7: "sub_accepted line \<longrightarrow> split_ws (strip rest) = t0 # t1 # ts \<longrightarrow>
      prefix ''test_'' (lower ?nm) \<longrightarrow>
      readlines f = blanks @ L # after \<longrightarrow> (\<forall>b \<in> set blanks. strip b = []) \<longrightarrow>
      strip L \<noteq> [] \<longrightarrow>
      parse_subroutine f line m =
        Some (Inr (concat after,
          m\<lparr>subroutines := subroutines m @
              [\<lparr>name = ?nm,
                description = (if CHR ''!'' \<in> set L
                               then strip (tl (dropWhile (\<lambda>c. c \<noteq> CHR ''!'') L))
                               else ?nm)\<rparr>]\<rparr>))"
    using nm parse_subroutine_test_case [of line ?nm f blanks L after m] by blast
  have c8: "sub_accepted line \<longrightarrow> split_ws (strip rest) = t0 # t1 # ts \<longrightarrow>
      lower ?nm \<noteq> ''setup'' \<longrightarrow> lower ?nm \<noteq> ''teardown'' \<longrightarrow> \<not> prefix ''test_'' (lower ?nm) \<longrightarrow>
      parse_subroutine f line m = Some (Inr (f, m))"
    using nm parse_subroutine_hooks(3) by blast
  have c3: "split_ws (strip rest) = t0 # t1 # ts \<longrightarrow> sub_name line = Inr ?nm"
    using nm by blast
  from c1 c2 c3 c4 c5 c6 c7 c8 show ?thesis by (intro conjI)
qed

theorem subroutine_declaration_witness:
  "\<not> sub_accepted ''end subroutine test_alpha\<newline>''
   \<and> parse_subroutine ''contains\<newline>'' ''end subroutine test_alpha\<newline>'' (hd (test_modules one_module_suite))
       = Some (Inr (''contains\<newline>'', (hd (test_modules one_module_suite))))
   \<and> sub_accepted ''  subroutine\<newline>''
   \<and> parse_subroutine ''contains\<newline>'' ''  subroutine\<newline>'' (hd (test_modules one_module_suite)) = Some (Inl IndexError)
   \<and> sub_accepted ''subroutine SetUp\<newline>''
   \<and> parse_subroutine ''contains\<newline>'' ''subroutine SetUp\<newline>'' (hd (test_modules one_module_suite))
       = Some (Inr (''contains\<newline>'', (hd (test_modules one_module_suite))\<lparr>has_setup := True\<rparr>))
   \<and> parse_subroutine ''contains\<newline>'' ''subroutine teardown()\<newline>'' (hd (test_modules one_module_suite))
       = Some (Inr (''contains\<newline>'', (hd (test_modules one_module_suite))\<lparr>has_teardown := True\<rparr>))
   \<and> sub_accepted ''  Subroutine Test_Alpha(x) ! end\<newline>''
   \<and> sub_name ''  Subroutine Test_Alpha(x) ! end\<newline>'' = Inr ''Test_Alpha''
   \<and> parse_subroutine ''\<newline>! checks alpha\<newline>end subroutine\<newline>''
         ''  Subroutine Test_Alpha(x) ! end\<newline>'' (hd (test_modules one_module_suite))
       = Some (Inr (''end subroutine\<newline>'',
           (hd (test_modules one_module_suite))\<lparr>subroutines := subroutines (hd (test_modules one_module_suite)) @
               [\<lparr>name = ''Test_Alpha'', description = ''checks alpha''\<rparr>]\<rparr>))
   \<and> parse_subroutine ''contains\<newline>'' ''subroutine helper(a)\<newline>'' (hd (test_modules one_module_suite))
       = Some (Inr (''contains\<newline>'', (hd (test_modules one_module_suite))))"
  using
    subroutine_declaration [of "''end subroutine test_alpha\<newline>''" "''end ''"
      "''subroutine test_alpha\<newline>''" "''contains\<newline>''" "hd (test_modules one_module_suite)"
      "''subroutine''" "''test_alpha''" "[]" "[]" "''contains\<newline>''" "[]"]
    subroutine_declaration [of "''  subroutine\<newline>''" "''  ''"
      "''subroutine\<newline>''" "''contains\<newline>''" "hd (test_modules one_module_suite)"
      "''subroutine''" "''x''" "[]" "[]" "''contains\<newline>''" "[]"]
    subroutine_declaration [of "''subroutine SetUp\<newline>''" "[]"
      "''subroutine SetUp\<newline>''" "''contains\<newline>''" "hd (test_modules one_module_suite)"
      "''subroutine''" "''SetUp''" "[]" "[]" "''contains\<newline>''" "[]"]
    subroutine_declaration [of "''subroutine teardown()\<newline>''" "[]"
      "''subroutine teardown()\<newline>''" "''contains\<newline>''" "hd (test_modules one_module_suite)"
      "''subroutine''" "''teardown()''" "[]" "[]" "''contains\<newline>''" "[]"]
    subroutine_declaration [of "''  Subroutine Test_Alpha(x) ! end\<newline>''" "''  ''"
      "''Subroutine Test_Alpha(x) ! end\<newline>''" "''\<newline>! checks alpha\<newline>end subroutine\<newline>''" "hd (test_modules one_module_suite)"
      "''Subroutine''" "''Test_Alpha(x)''" "[''!'', ''end'']" "[''\<newline>'']" "''! checks alpha\<newline>''"
      "[''end subroutine\<newline>'']"]
    subroutine_declaration [of "''subroutine helper(a)\<newline>''" "[]"
      "''subroutine helper(a)\<newline>''" "''contains\<newline>''" "hd (test_modules one_module_suite)"
      "''subroutine''" "''helper(a)''" "[]" "[]" "''contains\<newline>''" "[]"]
  by (simp add: str_eval All_less_Suc)

text \<open>
  \<^bold>\<open>C6.\<close> For an accepted declaration whose name is that of a test, when the lines after the
  declaration are blank lines and then a line \<open>L\<close> that is not blank, the scanner stops
  after \<open>L\<close> and appends the test case; its description is the stripped text after the
  first \<^verbatim>\<open>!\<close> of \<open>L\<close>, or the name of the subroutine when \<open>L\<close> has no \<^verbatim>\<open>!\<close>.
\<close>

theorem test_case_description:
  assumes "sub_accepted line" and "sub_name line = Inr nm" and "subroutine_type nm = Some Test"
    and "readlines f = blanks @ L # after" and "\<forall>b \<in> set blanks. strip b = []"
    and "strip L \<noteq> []"
  shows "parse_subroutine f line m =
           Some (Inr (concat after,
             m\<lparr>subroutines := subroutines m @
                 [\<lparr>name = nm,
                   description = (if CHR ''!'' \<in> set L
                                  then strip (tl (dropWhile (\<lambda>c. c \<noteq> CHR ''!'') L))
                                  else nm)\<rparr>]\<rparr>))"
proof -
  have "(case readline f of (l, f') \<Rightarrow> nonblank_line l f') = Some (L, concat after)"
    using assms(4-6) by (rule nonblank_line_found)
  then show ?thesis
    using assms(1-3) description_of_line [of L nm]
    by (simp add: parse_subroutine_def Let_def split: prod.splits)
qed

theorem test_case_description_witness:
  "parse_subroutine ''\<newline>! checks alpha\<newline>end subroutine\<newline>'' ''subroutine test_alpha()\<newline>''
      (hd (test_modules one_module_suite))
    = Some (Inr (''end subroutine\<newline>'',
        (hd (test_modules one_module_suite))
          \<lparr>subroutines := [\<lparr>name = ''test_alpha'', description = ''checks alpha''\<rparr>]\<rparr>))
   \<and> parse_subroutine ''  \<newline>\<newline>  call check(1)\<newline>end subroutine\<newline>'' ''subroutine Test_Beta\<newline>''
      (hd (test_modules one_module_suite))
    = Some (Inr (''end subroutine\<newline>'',
        (hd (test_modules one_module_suite))
          \<lparr>subroutines := [\<lparr>name = ''Test_Beta'', description = ''Test_Beta''\<rparr>]\<rparr>))"
  using
    test_case_description [of "''subroutine test_alpha()\<newline>''" "''test_alpha''"
      "''\<newline>! checks alpha\<newline>end subroutine\<newline>''" "[''\<newline>'']" "''! checks alpha\<newline>''"
      "[''end subroutine\<newline>'']" "hd (test_modules one_module_suite)"]
    test_case_description [of "''subroutine Test_Beta\<newline>''" "''Test_Beta''"
      "''  \<newline>\<newline>  call check(1)\<newline>end subroutine\<newline>''" "[''  \<newline>'', ''\<newline>'']"
      "''  call check(1)\<newline>''" "[''end subroutine\<newline>'']" "hd (test_modules one_module_suite)"]
  by (simp add: one_module_suite_def sub_accepted_def sub_pre_def sub_name_def subroutine_type_def
      str_eval)

text \<open>
  \<^bold>\<open>C4.\<close> The loop that looks for the line of the description has no test for the end of the
  file. When nothing but whitespace follows the declaration of a test, the scanner does not
  return: no test case is appended, and the suite is never constructed.
\<close>

theorem test_declaration_at_end_never_returns:
  assumes "sub_accepted line" and "sub_name line = Inr nm" and "subroutine_type nm = Some Test"
    and "strip f = []"
  shows "parse_subroutine f line m = None"
proof -
  obtain l f' where r: "readline f = (l, f')" by (cases "readline f")
  from r have f: "f = l @ f'" by (rule readline_append)
  have "strip l = []" "strip f' = []" using assms(4) unfolding f strip_empty_iff by auto
  then have "nonblank_line l f' = None" by (rule nonblank_line_never_returns)
  then show ?thesis using assms(1-3) r by (simp add: parse_subroutine_def)
qed

theorem test_declaration_at_end_never_returns_witness:
  "sub_accepted ''subroutine test_a\<newline>'' \<and> sub_name ''subroutine test_a\<newline>'' = Inr ''test_a''
   \<and> subroutine_type ''test_a'' = Some Test \<and> strip '' \<newline>'' = []
   \<and> parse_subroutine '' \<newline>'' ''subroutine test_a\<newline>''
        \<lparr>test_filename = ''t.f90'', test_module_name = ''m'', has_setup = False,
         has_teardown = False, subroutines = []\<rparr> = None
   \<and> new_test_suite [''t.f90'' \<mapsto> ''module m\<newline>subroutine test_a\<newline> \<newline>''] (Str ''t.f90'') = None"
  using test_declaration_at_end_never_returns [of "''subroutine test_a\<newline>''" "''test_a''" "'' \<newline>''"
      "\<lparr>test_filename = ''t.f90'', test_module_name = ''m'', has_setup = False,
         has_teardown = False, subroutines = []\<rparr>"]
  by (simp add: sub_accepted_def sub_pre_def sub_name_def subroutine_type_def
      new_test_suite_def new_test_module_def parse_test_module_name_def parse_subroutines_def
      module_line.simps subroutines_loop.simps str_eval)

text \<open>The scanner scenario of the specification.\<close>

lemma scanner_scenario:
  "new_test_module
     [''foo.f90'' \<mapsto> ''module foo_test\<newline>subroutine test_alpha()\<newline>\<newline>! checks alpha\<newline>'']
     ''foo.f90''
   = Some (Inr \<lparr>test_filename = ''foo.f90'', test_module_name = ''foo_test'', has_setup = False,
                has_teardown = False,
                subroutines = [\<lparr>name = ''test_alpha'', description = ''checks alpha''\<rparr>]\<rparr>)"
  by (simp add: new_test_module_def parse_test_module_name_def parse_subroutines_def
      parse_subroutine_def sub_accepted_def sub_pre_def sub_name_def subroutine_type_def
      module_line.simps nonblank_line.simps subroutines_loop.simps str_eval)

subsection \<open>The percentage of a counter\<close>

text \<open>
  \<^bold>\<open>C9\<close> (as amended). Whatever the arithmetic of the floats, \<^verbatim>\<open>get_percent\<close> never raises
  \<^verbatim>\<open>ZeroDivisionError\<close>. When the conversion of a non-zero integer is never the float zero,
  and success and total are both in the range of the doubles, it returns \<^verbatim>\<open>0.0\<close> for a total
  of zero and the float \<^verbatim>\<open>float(success) / float(total) * 100.\<close> otherwise.
\<close>

theorem percent_in_double_range:
  assumes "\<forall>n. in_double_range n \<longrightarrow> (is_zero ops (to_float ops n) \<longleftrightarrow> n = 0)"
  shows "get_percent ops r \<noteq> Inl ZeroDivisionError
       \<and> (in_double_range (success r) \<longrightarrow> in_double_range (total r) \<longrightarrow>
            get_percent ops r =
              Inr (if total r = 0 then float_0 ops
                   else fmul ops (fdiv ops (to_float ops (success r)) (to_float ops (total r)))
                          (float_100 ops)))"
proof (intro conjI impI)
  show "get_percent ops r \<noteq> Inl ZeroDivisionError"
    by (simp add: get_percent_def split: sum.splits)
next
  assume s: "in_double_range (success r)" and t: "in_double_range (total r)"
  from t assms have z: "is_zero ops (to_float ops (total r)) \<longleftrightarrow> total r = 0" by blast
  show "get_percent ops r =
          Inr (if total r = 0 then float_0 ops
               else fmul ops (fdiv ops (to_float ops (success r)) (to_float ops (total r)))
                      (float_100 ops))"
    by (simp add: get_percent_def percent_try_def py_float_def float_div_def s t z)
qed

text \<open>On the reals: nine of ten is ninety per cent, and nine of none is zero.\<close>

theorem percent_in_double_range_witness:
  "in_double_range 9 \<and> in_double_range 10 \<and> in_double_range 0
   \<and> get_percent exact_floats \<lparr>success = 9, total = 10\<rparr> = Inr 90
   \<and> get_percent exact_floats \<lparr>success = 9, total = 0\<rparr> = Inr 0"
  using percent_in_double_range [of exact_floats "\<lparr>success = 9, total = 10\<rparr>"]
    percent_in_double_range [of exact_floats "\<lparr>success = 9, total = 0\<rparr>"]
  by (simp add: exact_floats_def in_double_range_def)

text \<open>
  C9 as it is written, for all non-negative integers, fails: \<^verbatim>\<open>float(self.success)\<close> is
  evaluated before the division, and for a success count beyond the doubles it raises
  \<^verbatim>\<open>OverflowError\<close>, which the handler does not catch, also when the total is zero.
\<close>

theorem percent_overflow_counterexample:
  "(0::int) \<le> 10 ^ 400
   \<and> get_percent exact_floats \<lparr>success = 10 ^ 400, total = 0\<rparr> = Inl OverflowError"
  by (simp add: get_percent_def percent_try_def py_float_def in_double_range_def)

subsection \<open>Construction of a suite\<close>

lemma new_test_suite_counters:
  "new_test_suite fs arg = Some (Inr s) \<Longrightarrow>
   asserts s = \<lparr>success = 0, total = 0\<rparr> \<and> cases s = \<lparr>success = 0, total = 0\<rparr>"
  by (auto simp: new_test_suite_def new_test_result_def Let_def split: option.splits sum.splits)

lemma new_one_module_suite:
  "new_test_suite example_files (Str ''t.f90'') = Some (Inr one_module_suite)"
  by (simp add: new_test_suite_def new_test_module_def example_files_def one_module_suite_def
      parse_test_module_name_def parse_subroutines_def module_line.simps subroutines_loop.simps
      str_eval)

subsection \<open>The result parser\<close>

lemma parse_summary_line_items:
  assumes items: "split_ws line = pre @ a # ''/'' # b # post"
    and last: "''/'' \<notin> set (b # post)"
    and a: "py_int a = Inr x" and b: "py_int b = Inr y"
  shows "parse_summary_line line = Inr (x, y)"
proof -
  let ?items = "pre @ a # ''/'' # b # post"
  have rev_items: "rev ?items = (rev post @ [b]) @ ''/'' # (a # rev pre)" by simp
  have "''/'' \<notin> set (rev post @ [b])" using last by auto
  then have k: "index_of ''/'' (rev ?items) = Inr (length (rev post @ [b]))"
    unfolding rev_items by (rule index_of_first)
  have before: "item ?items (- int (length post + 3)) = Inr a"
    by (subst item_from_end) (simp_all add: nth_append)
  have after: "item ?items (- int (length post + 1)) = Inr b"
    by (subst item_from_end) (simp_all add: nth_append)
  have e1: "- (int (length (rev post @ [b])) + 1) - 1 = - int (length post + 3)" by simp
  have e2: "- (int (length (rev post @ [b])) + 1) + 1 = - int (length post + 1)" by simp
  show ?thesis
    unfolding parse_summary_line_def items Let_def k e1 e2 sum.case before after a b
    by simp
qed

lemma statistics_loop_no_heading:
  "\<forall>l \<in> set ls. \<not> sublist ''Successful asserts / total asserts'' l \<Longrightarrow>
   statistics_loop ls ac = Inr ac"
  by (induction ls) auto

lemma statistics_loop_heading:
  assumes "\<forall>l \<in> set pre. \<not> sublist ''Successful asserts / total asserts'' l"
    and "sublist ''Successful asserts / total asserts'' hdr"
    and "\<forall>l \<in> set (nxt # post). \<not> sublist ''Successful asserts / total asserts'' l"
    and "parse_summary_line hdr = Inr (s1, t1)"
    and "parse_summary_line nxt = Inr (s2, t2)"
  shows "statistics_loop (pre @ hdr # nxt # post) ac =
           Inr ((fst ac)\<lparr>success := s1, total := t1\<rparr>, (snd ac)\<lparr>success := s2, total := t2\<rparr>)"
  using assms(1)
proof (induction pre)
  case Nil
  have "statistics_loop (nxt # post)
          ((fst ac)\<lparr>success := s1, total := t1\<rparr>, (snd ac)\<lparr>success := s2, total := t2\<rparr>)
        = Inr ((fst ac)\<lparr>success := s1, total := t1\<rparr>, (snd ac)\<lparr>success := s2, total := t2\<rparr>)"
    using assms(3) by (rule statistics_loop_no_heading)
  then show ?case using assms(2,4,5) by (simp add: item_def)
next
  case (Cons l pre)
  then show ?case by simp
qed

lemma messages_until_end_block:
  "\<forall>l \<in> set body. \<not> sublist ''end of failed assertion messages.'' l \<Longrightarrow>
   rest = [] \<or> sublist ''end of failed assertion messages.'' (hd rest) \<Longrightarrow>
   messages_until_end (body @ rest) = map strip body"
proof (induction body)
  case Nil
  then show ?case by (cases rest) auto
next
  case (Cons l body)
  then show ?case by simp
qed

lemma messages_of_no_heading:
  "\<forall>l \<in> set ls. \<not> sublist ''Failed assertion messages:'' l \<Longrightarrow> messages_of ls = []"
  by (induction ls) auto

lemma messages_of_first_heading:
  "\<forall>l \<in> set pre. \<not> sublist ''Failed assertion messages:'' l \<Longrightarrow>
   sublist ''Failed assertion messages:'' h \<Longrightarrow>
   messages_of (pre @ h # ls) = messages_until_end ls"
  by (induction pre) auto

lemma scenario_lines:
  "parse_summary_line ''Successful asserts / total asserts : 9 / 10'' = Inr (9, 10)"
  "parse_summary_line ''Successful cases / total cases : 3 / 4'' = Inr (3, 4)"
  by (simp_all add: parse_summary_line_def str_eval)

text \<open>
  \<^bold>\<open>C7.\<close> A summary line is split on whitespace; the integers before and after the last
  token \<open>/\<close> are the pair (success, total). The line that contains
  \<^verbatim>\<open>Successful asserts / total asserts\<close> gives the counts of assertions and the line after
  it the counts of cases. When no line contains the heading, \<^verbatim>\<open>get_statistics\<close> changes
  nothing, so the counters keep the zeros a new suite starts with.
\<close>

theorem get_statistics_summary:
  "(split_ws line = pre @ a # ''/'' # b # post \<longrightarrow> ''/'' \<notin> set (b # post) \<longrightarrow>
      py_int a = Inr x \<longrightarrow> py_int b = Inr y \<longrightarrow> parse_summary_line line = Inr (x, y))
   \<and> (output_lines s = Some (before @ hdr # nxt # after) \<longrightarrow>
      (\<forall>l \<in> set before \<union> set (nxt # after).
          \<not> sublist ''Successful asserts / total asserts'' l) \<longrightarrow>
      sublist ''Successful asserts / total asserts'' hdr \<longrightarrow>
      parse_summary_line hdr = Inr (s1, t1) \<longrightarrow> parse_summary_line nxt = Inr (s2, t2) \<longrightarrow>
      get_statistics s = Inr (s\<lparr>asserts := \<lparr>success = s1, total = t1\<rparr>,
                                cases := \<lparr>success = s2, total = t2\<rparr>\<rparr>))
   \<and> (output_lines s = Some ls \<longrightarrow>
      (\<forall>l \<in> set ls. \<not> sublist ''Successful asserts / total asserts'' l) \<longrightarrow>
      get_statistics s = Inr s)
   \<and> (new_test_suite fs arg = Some (Inr s0) \<longrightarrow>
      asserts s0 = \<lparr>success = 0, total = 0\<rparr> \<and> cases s0 = \<lparr>success = 0, total = 0\<rparr>)"
proof (intro conjI impI)
  assume "split_ws line = pre @ a # ''/'' # b # post" "''/'' \<notin> set (b # post)"
    "py_int a = Inr x" "py_int b = Inr y"
  then show "parse_summary_line line = Inr (x, y)" by (rule parse_summary_line_items)
next
  assume ls: "output_lines s = Some (before @ hdr # nxt # after)"
    and no: "\<forall>l \<in> set before \<union> set (nxt # after).
               \<not> sublist ''Successful asserts / total asserts'' l"
    and hdr: "sublist ''Successful asserts / total asserts'' hdr"
    and p1: "parse_summary_line hdr = Inr (s1, t1)"
    and p2: "parse_summary_line nxt = Inr (s2, t2)"
  from no have b: "\<forall>l \<in> set before. \<not> sublist ''Successful asserts / total asserts'' l"
    and a: "\<forall>l \<in> set (nxt # after). \<not> sublist ''Successful asserts / total asserts'' l"
    by auto
  show "get_statistics s = Inr (s\<lparr>asserts := \<lparr>success = s1, total = t1\<rparr>,
                                cases := \<lparr>success = s2, total = t2\<rparr>\<rparr>)"
    by (simp add: get_statistics_def ls statistics_loop_heading [OF b hdr a p1 p2])
next
  assume "output_lines s = Some ls"
    "\<forall>l \<in> set ls. \<not> sublist ''Successful asserts / total asserts'' l"
  then show "get_statistics s = Inr s"
    by (simp add: get_statistics_def statistics_loop_no_heading)
next
  assume "new_test_suite fs arg = Some (Inr s0)"
  then show "asserts s0 = \<lparr>success = 0, total = 0\<rparr>" by (simp add: new_test_suite_counters)
next
  assume "new_test_suite fs arg = Some (Inr s0)"
  then show "cases s0 = \<lparr>success = 0, total = 0\<rparr>" by (simp add: new_test_suite_counters)
qed

text \<open>The scenario of the specification, a suite whose output has no heading, and a new
  suite.\<close>

theorem get_statistics_summary_witness:
  "parse_summary_line ''Successful asserts / total asserts : 9 / 10'' = Inr (9, 10)
   \<and> get_statistics (suite_with_output
        [''x SUCCESSFUL! y'', ''Successful asserts / total asserts : 9 / 10'',
         ''Successful cases / total cases : 3 / 4''] True)
     = Inr ((suite_with_output
        [''x SUCCESSFUL! y'', ''Successful asserts / total asserts : 9 / 10'',
         ''Successful cases / total cases : 3 / 4''] True)
          \<lparr>asserts := \<lparr>success = 9, total = 10\<rparr>, cases := \<lparr>success = 3, total = 4\<rparr>\<rparr>)
   \<and> get_statistics (suite_with_output [''x SUCCESSFUL! y'', ''9 / 10''] True)
     = Inr (suite_with_output [''x SUCCESSFUL! y'', ''9 / 10''] True)
   \<and> asserts one_module_suite = \<lparr>success = 0, total = 0\<rparr>
   \<and> cases one_module_suite = \<lparr>success = 0, total = 0\<rparr>"
  using
    get_statistics_summary [of "''Successful asserts / total asserts : 9 / 10''"
      "[''Successful'', ''asserts'', ''/'', ''total'', ''asserts'', '':'']" "''9''" "''10''" "[]"
      9 10
      "suite_with_output
        [''x SUCCESSFUL! y'', ''Successful asserts / total asserts : 9 / 10'',
         ''Successful cases / total cases : 3 / 4''] True"
      "[''x SUCCESSFUL! y'']" "''Successful asserts / total asserts : 9 / 10''"
      "''Successful cases / total cases : 3 / 4''" "[]" 9 10 3 4
      "[]" example_files "Str ''t.f90''" one_module_suite]
    get_statistics_summary [of "''Successful asserts / total asserts : 9 / 10''"
      "[''Successful'', ''asserts'', ''/'', ''total'', ''asserts'', '':'']" "''9''" "''10''" "[]"
      9 10
      "suite_with_output [''x SUCCESSFUL! y'', ''9 / 10''] True"
      "[]" "[]" "[]" "[]" 0 0 0 0
      "[''x SUCCESSFUL! y'', ''9 / 10'']" example_files "Str ''t.f90''" one_module_suite]
    new_one_module_suite scenario_lines
  by (simp add: suite_with_output_def str_eval)

text \<open>
  \<^bold>\<open>C8.\<close> Failure messages are looked for only when the success flag is false. The first
  line that contains \<^verbatim>\<open>Failed assertion messages:\<close> opens the block; every line after it
  is collected, stripped, up to and without the first line that contains
  \<^verbatim>\<open>end of failed assertion messages.\<close> (or up to the end of the output); nothing after
  that line is read, so a second block is not collected.
\<close>

theorem get_messages_first_block:
  assumes "output_lines s = Some ls" and "all_passed s = Some ok"
  shows "(ok \<longrightarrow> get_messages s = Inr (s\<lparr>messages := Some []\<rparr>))
       \<and> (\<not> ok \<longrightarrow> (\<forall>l \<in> set ls. \<not> sublist ''Failed assertion messages:'' l) \<longrightarrow>
            get_messages s = Inr (s\<lparr>messages := Some []\<rparr>))
       \<and> (\<not> ok \<longrightarrow> ls = pre @ h # body @ rest \<longrightarrow>
            (\<forall>l \<in> set pre. \<not> sublist ''Failed assertion messages:'' l) \<longrightarrow>
            sublist ''Failed assertion messages:'' h \<longrightarrow>
            (\<forall>l \<in> set body. \<not> sublist ''end of failed assertion messages.'' l) \<longrightarrow>
            (rest = [] \<or> sublist ''end of failed assertion messages.'' (hd rest)) \<longrightarrow>
            get_messages s = Inr (s\<lparr>messages := Some (map strip body)\<rparr>))"
  using assms
  by (simp add: get_messages_def messages_of_no_heading messages_of_first_heading
      messages_until_end_block)

text \<open>A successful run, a failed run without the heading, and a failed run with two
  blocks.\<close>

theorem get_messages_first_block_witness:
  "get_messages (suite_with_output [''x SUCCESSFUL! y'', ''Failed assertion messages:'', ''msgA''] True)
     = Inr (suite_with_output [''x SUCCESSFUL! y'', ''Failed assertion messages:'', ''msgA''] True)
   \<and> get_messages (suite_with_output [''no heading here'', ''msgA''] False)
     = Inr (suite_with_output [''no heading here'', ''msgA''] False)
   \<and> get_messages (suite_with_output
        [''intro'', ''Failed assertion messages:'', '' msgA'', ''msgB  '',
         ''end of failed assertion messages.'', ''Failed assertion messages:'', ''msgC''] False)
     = Inr ((suite_with_output
        [''intro'', ''Failed assertion messages:'', '' msgA'', ''msgB  '',
         ''end of failed assertion messages.'', ''Failed assertion messages:'', ''msgC''] False)
          \<lparr>messages := Some [''msgA'', ''msgB'']\<rparr>)"
  using
    get_messages_first_block [of
      "suite_with_output [''x SUCCESSFUL! y'', ''Failed assertion messages:'', ''msgA''] True"
      "[''x SUCCESSFUL! y'', ''Failed assertion messages:'', ''msgA'']" True]
    get_messages_first_block [of
      "suite_with_output [''no heading here'', ''msgA''] False"
      "[''no heading here'', ''msgA'']" False]
    get_messages_first_block [of
      "suite_with_output
        [''intro'', ''Failed assertion messages:'', '' msgA'', ''msgB  '',
         ''end of failed assertion messages.'', ''Failed assertion messages:'', ''msgC''] False"
      "[''intro'', ''Failed assertion messages:'', '' msgA'', ''msgB  '',
         ''end of failed assertion messages.'', ''Failed assertion messages:'', ''msgC'']"
      False "[''intro'']" "''Failed assertion messages:''" "['' msgA'', ''msgB  '']"
      "[''end of failed assertion messages.'', ''Failed assertion messages:'', ''msgC'']"]
  by (simp add: suite_with_output_def str_eval)

subsection \<open>The suite as a whole\<close>

text \<open>
  \<^bold>\<open>C10.\<close> The constructor takes a single path, given as a \<^verbatim>\<open>str\<close>, for the list that
  holds that path alone: both give the same suite, the same exception, or neither returns.
\<close>

theorem single_path_as_list:
  "new_test_suite fs (Str p) = new_test_suite fs (StrList [p])"
  by (simp add: new_test_suite_def)

text \<open>
  \<^bold>\<open>C1\<close> (as amended). \<^verbatim>\<open>build_run\<close> tests the number of modules, not the number of test
  cases: for a suite without modules it returns false, and the suite and the world are as
  before, so no driver is written, nothing is built and nothing is run.
\<close>

theorem build_run_no_modules:
  "test_modules s = [] \<Longrightarrow> build_run pf s drv build_command w = Inr (False, s, w)"
  by (simp add: build_run_def get_num_test_modules_def)

theorem build_run_no_modules_witness:
  "new_test_suite example_files (StrList []) = Some (Inr empty_suite)
   \<and> test_modules empty_suite = []
   \<and> build_run example_platform empty_suite ''tests.f90'' ''make''
        \<lparr>files = example_files, calls = []\<rparr>
      = Inr (False, empty_suite, \<lparr>files = example_files, calls = []\<rparr>)"
  using build_run_no_modules [of empty_suite example_platform "''tests.f90''" "''make''"
      "\<lparr>files = example_files, calls = []\<rparr>"]
  by (simp add: empty_suite_def new_test_suite_def)

text \<open>
  C1 as it is written fails: the suite built from a file with a module and no test case has
  no test case in any module, and \<^verbatim>\<open>build_run\<close> writes the driver, runs the build command
  and the executable, and returns true.
\<close>

theorem build_run_no_test_cases_counterexample:
  "new_test_suite example_files (Str ''t.f90'') = Some (Inr one_module_suite)
   \<and> concat (map subroutines (test_modules one_module_suite)) = []
   \<and> outcome (build_run example_platform one_module_suite ''tests.f90'' ''make''
        \<lparr>files = example_files, calls = []\<rparr>)
      = Inr (True, [''make'', ''./tests > tests.out''])"
  by (simp add: new_one_module_suite)
    (simp add: one_module_suite_def outcome_def build_run_def get_num_test_modules_def
      write_driver_def build_def run_def call_def isfile_def remove_def example_platform_def
      parse_output_file_def get_output_lines_def get_success_def get_messages_def
      get_statistics_def str_eval)

end
